theory Spec2Isabelle
  imports Complex_Main
begin

section \<open>Values of the JavaScript runtime\<close>

text \<open>
  The store (\<^verbatim>\<open>src/lib/store.ts\<close>) and the timer component read values that were
  produced by \<^verbatim>\<open>JSON.parse\<close>. Such a value is one of the six JSON shapes. An object is
  kept as its list of members in source order; numbers are the rationals (every finite
  double is one; rounding and overflow to infinity are outside the model).
\<close>

datatype json =
    JNull
  | JBool bool
  | JNum rat
  | JStr string
  | JArr "json list"
  | JObj "(string \<times> json) list"

text \<open>
  Property access \<^verbatim>\<open>v.k\<close> on a non-null parsed value, for the keys the program uses
  (none of them is a property of a string, number, boolean or array): \<open>None\<close> is
  \<^verbatim>\<open>undefined\<close>. Of a repeated member \<^verbatim>\<open>JSON.parse\<close> keeps the last one.
\<close>

fun getProp :: "json \<Rightarrow> string \<Rightarrow> json option" where
  "getProp (JObj members) k = map_of (rev members) k"
| "getProp _ k = None"

text \<open>Truthiness of a value that may be \<^verbatim>\<open>undefined\<close>, as \<^verbatim>\<open>!v\<close> and \<^verbatim>\<open>||\<close> test it.\<close>

fun truthy :: "json \<Rightarrow> bool" where
  "truthy JNull = False"
| "truthy (JBool b) = b"
| "truthy (JNum n) = (n \<noteq> 0)"
| "truthy (JStr s) = (s \<noteq> [])"
| "truthy (JArr _) = True"
| "truthy (JObj _) = True"

fun truthy_opt :: "json option \<Rightarrow> bool" where
  "truthy_opt None = False"
| "truthy_opt (Some v) = truthy v"

text \<open>\<^verbatim>\<open>v || d\<close> on a value that may be \<^verbatim>\<open>undefined\<close>, with a JSON default.\<close>

fun or_default :: "json option \<Rightarrow> json \<Rightarrow> json" where
  "or_default None d = d"
| "or_default (Some v) d = (if truthy v then v else d)"

fun typeof_number :: "json option \<Rightarrow> bool" where
  "typeof_number (Some (JNum _)) = True"
| "typeof_number _ = False"

fun typeof_boolean :: "json option \<Rightarrow> bool" where
  "typeof_boolean (Some (JBool _)) = True"
| "typeof_boolean _ = False"

fun Array_isArray :: "json option \<Rightarrow> bool" where
  "Array_isArray (Some (JArr _)) = True"
| "Array_isArray _ = False"

text \<open>
  \<^verbatim>\<open>Set.prototype.has\<close> compares with SameValueZero: strings, numbers, booleans and
  null by value, objects and arrays by identity. The ids in the set come from the stored
  data and the id looked up from a freshly parsed bundle, so an object or an array is
  never found.
\<close>

fun primitive :: "json \<Rightarrow> bool" where
  "primitive (JArr _) = False"
| "primitive (JObj _) = False"
| "primitive _ = True"

definition Set_has :: "json list \<Rightarrow> json \<Rightarrow> bool" where
  "Set_has elems v \<longleftrightarrow> primitive v \<and> v \<in> set elems"

text \<open>
  What the program takes from its environment: the fixed offset of local time from UTC
  in minutes (positive east of Greenwich; daylight saving changes are outside the
  model), \<^verbatim>\<open>JSON.parse\<close> (\<open>None\<close> when it throws), and the time value in milliseconds
  since the epoch of \<^verbatim>\<open>new Date(v)\<close> for a parsed value \<open>v\<close> (\<open>None\<close> for an invalid
  date, whose time value is NaN).
\<close>

record Runtime =
  tzOffset :: int
  JSON_parse :: "string \<Rightarrow> json option"
  Date_time :: "json \<Rightarrow> int option"

section \<open>The store: \<^verbatim>\<open>src/lib/store.ts\<close>\<close>

subsection \<open>Data\<close>

text \<open>
  \<^verbatim>\<open>interface Session\<close>. \<open>duration\<close> and \<open>completed\<close> have the declared types on every
  path that builds a record (the import checks \<^verbatim>\<open>typeof\<close>); the import copies the other
  fields from the parsed bundle unchecked, so they hold whatever JSON value was there.
  The field \<^verbatim>\<open>id\<close> is called \<open>ident\<close> here.
\<close>

record Session =
  ident :: json
  startTime :: json
  duration :: rat
  completed :: bool
  completedAt :: json
  failedAttentionCheck :: json
  attentionChecksResponded :: json

datatype Theme = light | dark

record Streaks =
  currentStreak :: nat
  longestStreak :: nat

text \<open>\<^verbatim>\<open>interface AppData\<close>: the two streak fields and \<open>theme\<close>, \<open>sessions\<close>.\<close>

record AppData = Streaks +
  theme :: Theme
  sessions :: "Session list"

text \<open>
  \<^verbatim>\<open>localStorage\<close>: the blob under \<^verbatim>\<open>boredom-challenge-data\<close> is represented by the
  \<open>AppData\<close> it serialises (\<open>None\<close>: no item, or one that does not parse), the item
  under \<^verbatim>\<open>boredom-last-duration\<close> by the integer its decimal string spells.
\<close>

record Storage =
  stored_data :: "AppData option"
  stored_last_duration :: "int option"

definition getDefaultData :: AppData where
  "getDefaultData = \<lparr>currentStreak = 0, longestStreak = 0, theme = light, sessions = []\<rparr>"

definition loadData :: "Storage \<Rightarrow> AppData" where
  "loadData ls = (case stored_data ls of None \<Rightarrow> getDefaultData | Some d \<Rightarrow> d)"

definition saveData :: "AppData \<Rightarrow> Storage \<Rightarrow> Storage" where
  "saveData d ls = ls\<lparr>stored_data := Some d\<rparr>"

subsection \<open>Calendar days\<close>

text \<open>
  A date string \<^verbatim>\<open>YYYY-MM-DD\<close> is represented by the number of its day, counted from
  1970-01-01; the text an invalid date formats to is \<^verbatim>\<open>NaN-NaN-NaN\<close>. For the years
  1000 to 9999 the strings have ten characters, so that \<^verbatim>\<open>sort()\<close>, which compares
  code units, orders them by day, and puts \<^verbatim>\<open>NaN-NaN-NaN\<close> last.
\<close>

datatype datestr = Day int | NaN_NaN_NaN

instantiation datestr :: linorder
begin

fun less_eq_datestr :: "datestr \<Rightarrow> datestr \<Rightarrow> bool" where
  "less_eq_datestr (Day a) (Day b) = (a \<le> b)"
| "less_eq_datestr (Day a) NaN_NaN_NaN = True"
| "less_eq_datestr NaN_NaN_NaN (Day b) = False"
| "less_eq_datestr NaN_NaN_NaN NaN_NaN_NaN = True"

definition less_datestr :: "datestr \<Rightarrow> datestr \<Rightarrow> bool" where
  "less_datestr x y \<longleftrightarrow> x \<le> y \<and> \<not> y \<le> x"

instance
proof
  fix x y z :: datestr
  show "(x < y) = (x \<le> y \<and> \<not> y \<le> x)"
    by (simp add: less_datestr_def)
  show "x \<le> x"
    by (cases x) simp_all
  show "x \<le> y \<Longrightarrow> y \<le> z \<Longrightarrow> x \<le> z"
    by (cases x; cases y; cases z) simp_all
  show "x \<le> y \<Longrightarrow> y \<le> x \<Longrightarrow> x = y"
    by (cases x; cases y) simp_all
  show "x \<le> y \<or> y \<le> x"
    by (cases x; cases y) auto
qed

end

definition msPerDay :: int where
  "msPerDay = 1000 * 60 * 60 * 24"

text \<open>The local calendar day of a time value: what \<^verbatim>\<open>getFullYear\<close>, \<^verbatim>\<open>getMonth\<close> and
  \<^verbatim>\<open>getDate\<close> read.\<close>

definition localDay :: "Runtime \<Rightarrow> int \<Rightarrow> int" where
  "localDay rt t = (t + tzOffset rt * 60000) div msPerDay"

text \<open>The template \<^verbatim>\<open>`${d.getFullYear()}-${...}-${...}`\<close> on a date object.\<close>

fun formatLocal :: "Runtime \<Rightarrow> int option \<Rightarrow> datestr" where
  "formatLocal rt None = NaN_NaN_NaN"
| "formatLocal rt (Some t) = Day (localDay rt t)"

text \<open>\<^verbatim>\<open>new Date(s)\<close> on a date string: the date-only form is read as midnight UTC of
  that day.\<close>

definition Date_of_day :: "int \<Rightarrow> int" where
  "Date_of_day d = d * msPerDay"

fun Date_of_datestr :: "datestr \<Rightarrow> int option" where
  "Date_of_datestr (Day d) = Some (Date_of_day d)"
| "Date_of_datestr NaN_NaN_NaN = None"

text \<open>\<^verbatim>\<open>checkDate.setDate(checkDate.getDate() - 1)\<close>: the same local time, one day earlier.\<close>

definition setDate_previous :: "int \<Rightarrow> int" where
  "setDate_previous t = t - msPerDay"

definition toLocalDateString :: "Runtime \<Rightarrow> json \<Rightarrow> datestr" where
  "toLocalDateString rt isoString = formatLocal rt (Date_time rt isoString)"

text \<open>\<^verbatim>\<open>Math.round(a / b)\<close> for integers \<open>a\<close> and \<open>b > 0\<close>: halves round up.\<close>

definition Math_round_div :: "int \<Rightarrow> int \<Rightarrow> int" where
  "Math_round_div a b = (2 * a + b) div (2 * b)"

subsection \<open>Streaks\<close>

text \<open>A \<^verbatim>\<open>Set\<close> of strings iterates in insertion order: a list without repetition.\<close>

definition Set_add :: "datestr \<Rightarrow> datestr list \<Rightarrow> datestr list" where
  "Set_add x elems = (if x \<in> set elems then elems else elems @ [x])"

definition getCompletedDays :: "Runtime \<Rightarrow> Session list \<Rightarrow> datestr list" where
  "getCompletedDays rt ss =
     fold (\<lambda>s days. if completed s \<and> truthy (completedAt s)
                     then Set_add (toLocalDateString rt (completedAt s)) days else days)
          ss []"

text \<open>The \<^verbatim>\<open>for\<close> loop over \<open>sortedDays\<close>, from index \<open>i\<close>, with its two counters.\<close>

definition diffDays :: "datestr \<Rightarrow> datestr \<Rightarrow> int option" where
  "diffDays prevDay currDay =
     (case (Date_of_datestr prevDay, Date_of_datestr currDay) of
        (Some p, Some c) \<Rightarrow> Some (Math_round_div (c - p) msPerDay)
      | _ \<Rightarrow> None)"

function longestLoop :: "datestr list \<Rightarrow> nat \<Rightarrow> nat \<Rightarrow> nat \<Rightarrow> nat" where
  "longestLoop sortedDays i streak longest =
     (if i < length sortedDays then
        (let streak' = (if diffDays (sortedDays ! (i - 1)) (sortedDays ! i) = Some 1
                        then streak + 1 else 1)
         in longestLoop sortedDays (i + 1) streak' (max longest streak'))
      else longest)"
  by pat_completeness auto
termination
  by (relation "measure (\<lambda>(sortedDays, i, streak, longest). length sortedDays - i)") auto

text \<open>The \<^verbatim>\<open>while (true)\<close> loop: count days backward while they are completed.\<close>

function walkBack :: "Runtime \<Rightarrow> datestr list \<Rightarrow> int \<Rightarrow> nat \<Rightarrow> nat" where
  "walkBack rt completedDays checkDate count =
     (if formatLocal rt (Some checkDate) \<in> set completedDays
      then walkBack rt completedDays (setDate_previous checkDate) (count + 1)
      else count)"
  by pat_completeness auto
termination
proof (relation "measure (\<lambda>(rt, completedDays, checkDate, count).
          length (filter (\<lambda>x. x \<le> Day (localDay rt checkDate)) completedDays))")
  show "wf (measure (\<lambda>(rt, completedDays, checkDate, count).
          length (filter (\<lambda>x. x \<le> Day (localDay rt checkDate)) completedDays)))"
    by simp
next
  fix rt :: Runtime and completedDays :: "datestr list" and checkDate :: int and count :: nat
  assume mem: "formatLocal rt (Some checkDate) \<in> set completedDays"
  let ?d = "localDay rt checkDate"
  have prev: "localDay rt (setDate_previous checkDate) = ?d - 1"
    by (simp add: localDay_def setDate_previous_def msPerDay_def)
  let ?P = "\<lambda>x. x \<le> Day (?d - 1)"
  let ?Q = "\<lambda>x. x \<le> Day ?d"
  have imp: "?P x \<Longrightarrow> ?Q x" for x :: datestr
  proof -
    assume "x \<le> Day (?d - 1)"
    moreover have "Day (?d - 1) \<le> Day ?d" by simp
    ultimately show "x \<le> Day ?d" by (rule order_trans)
  qed
  have sub: "filter ?P completedDays = filter ?P (filter ?Q completedDays)"
    unfolding filter_filter by (rule filter_cong) (auto dest: imp)
  have "Day ?d \<in> set (filter ?Q completedDays)"
    using mem by simp
  moreover have "\<not> ?P (Day ?d)" by simp
  ultimately have "length (filter ?P (filter ?Q completedDays)) < length (filter ?Q completedDays)"
    by (rule length_filter_less)
  with sub prev
  show "((rt, completedDays, setDate_previous checkDate, count + 1),
         (rt, completedDays, checkDate, count))
        \<in> measure (\<lambda>(rt, completedDays, checkDate, count).
          length (filter (\<lambda>x. x \<le> Day (localDay rt checkDate)) completedDays))"
    by simp
qed

text \<open>
  \<^verbatim>\<open>recalculateStreaks(sessions)\<close>, with the value \<open>now\<close> of \<^verbatim>\<open>new Date()\<close>. The first loop
  is \<open>getCompletedDays\<close>, which the source repeats under that name. \<open>todayStr\<close> is the
  date string of the local day of \<open>now\<close>, and \<open>checkDate0\<close> is \<^verbatim>\<open>new Date(todayStr)\<close>.
\<close>

definition recalculateStreaks :: "Runtime \<Rightarrow> int \<Rightarrow> Session list \<Rightarrow> Streaks" where
  "recalculateStreaks rt now ss =
     (let completedDays = getCompletedDays rt ss in
      if length completedDays = 0 then \<lparr>currentStreak = 0, longestStreak = 0\<rparr>
      else
        let sortedDays = sort completedDays;
            longest = longestLoop sortedDays 1 1 1;
            todayStr = formatLocal rt (Some now);
            checkDate0 = Date_of_day (localDay rt now)
        in if todayStr \<notin> set completedDays then
             (let checkDate1 = setDate_previous checkDate0;
                  yesterdayStr = formatLocal rt (Some checkDate1)
              in if yesterdayStr \<notin> set completedDays
                 then \<lparr>currentStreak = 0, longestStreak = longest\<rparr>
                 else \<lparr>currentStreak = walkBack rt completedDays checkDate1 0,
                       longestStreak = longest\<rparr>)
           else \<lparr>currentStreak = walkBack rt completedDays checkDate0 0,
                 longestStreak = longest\<rparr>)"

subsection \<open>Saving a session\<close>

text \<open>\<^verbatim>\<open>saveSession(session)\<close> returns the data it wrote, and the storage holds it.\<close>

definition saveSession :: "Runtime \<Rightarrow> int \<Rightarrow> Session \<Rightarrow> Storage \<Rightarrow> AppData \<times> Storage" where
  "saveSession rt now session ls =
     (let data0 = loadData ls;
          data1 = data0\<lparr>sessions := sessions data0 @ [session]\<rparr>;
          streaks = recalculateStreaks rt now (sessions data1);
          data2 = data1\<lparr>currentStreak := currentStreak streaks,
                        longestStreak := longestStreak streaks\<rparr>
      in (data2, saveData data2 ls))"

subsection \<open>Export\<close>

text \<open>
  The \<^verbatim>\<open>reduce\<close> that adds up \<^verbatim>\<open>attentionChecksResponded\<close>. On a number it adds, a
  boolean or null is converted to a number first; with a string, an array or an object
  \<^verbatim>\<open>+\<close> concatenates text, and the arithmetic done on that text afterwards is outside
  the model: \<open>None\<close>.
\<close>

fun js_plus :: "rat option \<Rightarrow> json \<Rightarrow> rat option" where
  "js_plus None v = None"
| "js_plus (Some a) (JNum n) = Some (a + n)"
| "js_plus (Some a) (JBool b) = Some (a + (if b then 1 else 0))"
| "js_plus (Some a) JNull = Some a"
| "js_plus (Some a) _ = None"

record Stats = Streaks +
  totalSessions :: nat
  completedSessions :: nat
  failedSessions :: nat
  totalMinutes :: rat
  attentionCheckSuccessRate :: "rat option"

record ExportObj =
  version :: string
  exportedAt :: string
  exportedSessions :: "Session list"
  stats :: Stats

text \<open>
  \<^verbatim>\<open>exportData()\<close> up to its last line: the object that \<^verbatim>\<open>JSON.stringify\<close> then
  serialises. \<open>nowISO\<close> is \<^verbatim>\<open>new Date().toISOString()\<close>.
\<close>

definition exportData :: "string \<Rightarrow> Storage \<Rightarrow> ExportObj" where
  "exportData nowISO ls =
     (let data = loadData ls;
          completedList = filter (\<lambda>s. completed s) (sessions data);
          failedList = filter (\<lambda>s. \<not> completed s) (sessions data);
          totalMins = fold (\<lambda>s sum. sum + duration s) completedList 0;
          totalChecks = fold (\<lambda>s sum. js_plus sum (attentionChecksResponded s))
                             (sessions data) (Some 0);
          failedChecks = length (filter (\<lambda>s. truthy (failedAttentionCheck s)) (sessions data))
      in \<lparr>version = ''1.0'',
          exportedAt = nowISO,
          exportedSessions = sessions data,
          stats = \<lparr>currentStreak = currentStreak data,
                    longestStreak = longestStreak data,
                    totalSessions = length (sessions data),
                    completedSessions = length completedList,
                    failedSessions = length failedList,
                    totalMinutes = totalMins,
                    attentionCheckSuccessRate =
                      (case totalChecks of
                         None \<Rightarrow> None
                       | Some t \<Rightarrow> Some (if t > 0 then (t - of_nat failedChecks) / t else 1))\<rparr>\<rparr>)"

subsection \<open>Import\<close>

text \<open>
  The result of \<^verbatim>\<open>importData\<close>. Its message is one of two fixed texts or the summary
  built from the two counters; \<open>message_text\<close> writes it out.
\<close>

datatype Message = InvalidFormat | MissingData | Summary nat nat

record ImportResult =
  success :: bool
  message :: Message

fun decimal :: "nat \<Rightarrow> string" where
  "decimal n = (if n < 10 then [char_of (48 + n)]
                else decimal (n div 10) @ [char_of (48 + n mod 10)])"

fun message_text :: "Message \<Rightarrow> string" where
  "message_text InvalidFormat = ''Invalid file format. Please select a valid export file.''"
| "message_text MissingData = ''File is missing required data. Please use a valid export file.''"
| "message_text (Summary imported skipped) =
     ''Imported '' @ decimal imported @ '' session'' @ (if imported \<noteq> 1 then ''s'' else [])
     @ '', skipped '' @ decimal skipped @ '' duplicate'' @ (if skipped \<noteq> 1 then ''s'' else [])"

text \<open>A call either returns or throws the \<^verbatim>\<open>TypeError\<close> of a property read on null.\<close>

datatype 'a outcome = Returned 'a | Threw_TypeError

text \<open>The validation loop: the first entry that is null throws, the first that lacks a
  required field returns the error result.\<close>

datatype validation = Valid | Invalid | Throws

fun validateSessions :: "json list \<Rightarrow> validation" where
  "validateSessions [] = Valid"
| "validateSessions (s # rest) =
     (if s = JNull then Throws
      else if \<not> truthy_opt (getProp s ''id'') \<or> \<not> truthy_opt (getProp s ''startTime'')
              \<or> \<not> typeof_number (getProp s ''duration'')
              \<or> \<not> typeof_boolean (getProp s ''completed'')
      then Invalid
      else validateSessions rest)"

text \<open>
  The object literal pushed for an entry \<open>s\<close> that passed the validation: the first four
  members are defined there, so the last equation of each reader is never used.
\<close>

fun defined_value :: "json option \<Rightarrow> json" where
  "defined_value (Some v) = v"
| "defined_value None = JNull"

fun number_value :: "json option \<Rightarrow> rat" where
  "number_value (Some (JNum n)) = n"
| "number_value _ = 0"

fun boolean_value :: "json option \<Rightarrow> bool" where
  "boolean_value (Some (JBool b)) = b"
| "boolean_value _ = False"

definition normalized :: "json \<Rightarrow> Session" where
  "normalized s =
     \<lparr>ident = defined_value (getProp s ''id''),
      startTime = defined_value (getProp s ''startTime''),
      duration = number_value (getProp s ''duration''),
      completed = boolean_value (getProp s ''completed''),
      completedAt = or_default (getProp s ''completedAt'') JNull,
      failedAttentionCheck = or_default (getProp s ''failedAttentionCheck'') (JBool False),
      attentionChecksResponded = or_default (getProp s ''attentionChecksResponded'') (JNum 0)\<rparr>"

text \<open>The second loop, with \<open>data.sessions\<close> and the counters \<open>imported\<close>, \<open>skipped\<close>.\<close>

fun importLoop :: "json list \<Rightarrow> json list \<Rightarrow> Session list \<times> nat \<times> nat \<Rightarrow> Session list \<times> nat \<times> nat" where
  "importLoop existingIds [] acc = acc"
| "importLoop existingIds (s # rest) (dataSessions, imported, skipped) =
     (if Set_has existingIds (defined_value (getProp s ''id''))
      then importLoop existingIds rest (dataSessions, imported, skipped + 1)
      else importLoop existingIds rest (dataSessions @ [normalized s], imported + 1, skipped))"

text \<open>\<^verbatim>\<open>importData(jsonString)\<close>: what the call does, and the storage after it.\<close>

definition importData :: "Runtime \<Rightarrow> int \<Rightarrow> string \<Rightarrow> Storage \<Rightarrow> ImportResult outcome \<times> Storage" where
  "importData rt now jsonString ls =
     (case JSON_parse rt jsonString of
        None \<Rightarrow> (Returned \<lparr>success = False, message = InvalidFormat\<rparr>, ls)
      | Some parsed \<Rightarrow>
          if parsed = JNull then (Threw_TypeError, ls)
          else if \<not> truthy_opt (getProp parsed ''sessions'')
                  \<or> \<not> Array_isArray (getProp parsed ''sessions'')
          then (Returned \<lparr>success = False, message = MissingData\<rparr>, ls)
          else
            (case getProp parsed ''sessions'' of
               Some (JArr entries) \<Rightarrow>
                 (case validateSessions entries of
                    Throws \<Rightarrow> (Threw_TypeError, ls)
                  | Invalid \<Rightarrow> (Returned \<lparr>success = False, message = MissingData\<rparr>, ls)
                  | Valid \<Rightarrow>
                      (let data0 = loadData ls;
                           existingIds = map ident (sessions data0);
                           (newSessions, imported, skipped) =
                              importLoop existingIds entries (sessions data0, 0, 0);
                           data1 = data0\<lparr>sessions := newSessions\<rparr>;
                           streaks = recalculateStreaks rt now (sessions data1);
                           data2 = data1\<lparr>currentStreak := currentStreak streaks,
                                         longestStreak := longestStreak streaks\<rparr>
                       in (Returned \<lparr>success = True, message = Summary imported skipped\<rparr>,
                           saveData data2 ls)))
             | _ \<Rightarrow> (Returned \<lparr>success = False, message = MissingData\<rparr>, ls)))"

subsection \<open>The last duration\<close>

definition getLastDuration :: "Storage \<Rightarrow> int" where
  "getLastDuration ls =
     (case stored_last_duration ls of
        Some n \<Rightarrow> if n \<ge> 1 \<and> n \<le> 60 then n else 15
      | None \<Rightarrow> 15)"

definition setLastDuration :: "int \<Rightarrow> Storage \<Rightarrow> Storage" where
  "setLastDuration minutes ls = ls\<lparr>stored_last_duration := Some minutes\<rparr>"

section \<open>The timer component\<close>

text \<open>
  The script of the Svelte component that drives a session (it follows the README in
  \<^verbatim>\<open>src/README.md\<close>). Theme, file picker and markup are left out. The component's
  variables form a record, together with the two things of the browser they act on: the
  storage, and the table of pending timers. \<^verbatim>\<open>setInterval\<close> and \<^verbatim>\<open>setTimeout\<close> enter a
  timer with a new handle and the callback it runs, \<^verbatim>\<open>clearInterval\<close> and \<^verbatim>\<open>clearTimeout\<close>
  remove the timer with the given handle. The variables \<^verbatim>\<open>attentionChecksResponded\<close>,
  \<^verbatim>\<open>completedDays\<close> and \<^verbatim>\<open>currentStreak\<close> are \<open>checksResponded\<close>, \<open>shownDays\<close> and
  \<open>shownStreak\<close> here.
\<close>

datatype AppState = Idle | Running | AttentionCheck | Completed | Failed

datatype callback =
    TimerTick
  | BarUpdate int
  | AttentionFail

record Component =
  state :: AppState
  durationMinutes :: int
  remainingSeconds :: int
  attentionProgress :: rat
  checksResponded :: nat
  sessionStartTime :: string
  timerInterval :: "nat option"
  attentionTimeout :: "nat option"
  attentionBarInterval :: "nat option"
  nextAttentionCheck :: int
  shownDays :: "datestr list"
  shownStreak :: nat
  attentionVisible :: bool
  touchStartY :: rat
  touchAccumulated :: rat
  localStorage :: Storage
  pendingTimers :: "(nat \<times> callback) list"
  nextHandle :: nat

definition setTimer :: "callback \<Rightarrow> Component \<Rightarrow> nat \<times> Component" where
  "setTimer cb c =
     (nextHandle c,
      c\<lparr>pendingTimers := pendingTimers c @ [(nextHandle c, cb)],
        nextHandle := nextHandle c + 1\<rparr>)"

definition clearTimer :: "nat \<Rightarrow> Component \<Rightarrow> Component" where
  "clearTimer h c = c\<lparr>pendingTimers := filter (\<lambda>(h', cb). h' \<noteq> h) (pendingTimers c)\<rparr>"

definition Math_trunc :: "rat \<Rightarrow> int" where
  "Math_trunc x = (if x \<ge> 0 then \<lfloor>x\<rfloor> else \<lceil>x\<rceil>)"

definition init :: "Runtime \<Rightarrow> int \<Rightarrow> Component \<Rightarrow> Component" where
  "init rt now c =
     (let data = loadData (localStorage c);
          streaks = recalculateStreaks rt now (sessions data);
          c1 = c\<lparr>shownDays := getCompletedDays rt (sessions data),
                 shownStreak := currentStreak streaks,
                 durationMinutes := getLastDuration (localStorage c)\<rparr>
      in c1\<lparr>remainingSeconds := durationMinutes c1 * 60\<rparr>)"

definition handleWheel :: "rat \<Rightarrow> Component \<Rightarrow> Component" where
  "handleWheel deltaY c =
     (if state c \<noteq> Idle then c
      else
        let c1 = (if deltaY < 0
                  then c\<lparr>durationMinutes := min 60 (durationMinutes c + 1)\<rparr>
                  else c\<lparr>durationMinutes := max 1 (durationMinutes c - 1)\<rparr>);
            c2 = c1\<lparr>remainingSeconds := durationMinutes c1 * 60\<rparr>
        in c2\<lparr>localStorage := setLastDuration (durationMinutes c2) (localStorage c2)\<rparr>)"

definition handleTouchStart :: "rat \<Rightarrow> Component \<Rightarrow> Component" where
  "handleTouchStart clientY c =
     (if state c \<noteq> Idle then c
      else c\<lparr>touchStartY := clientY, touchAccumulated := 0\<rparr>)"

definition handleTouchMove :: "rat \<Rightarrow> Component \<Rightarrow> Component" where
  "handleTouchMove clientY c =
     (if state c \<noteq> Idle then c
      else
        let deltaY = touchStartY c - clientY;
            c1 = c\<lparr>touchAccumulated := touchAccumulated c + deltaY\<rparr>;
            c2 = c1\<lparr>touchStartY := clientY\<rparr>;
            steps = Math_trunc (touchAccumulated c2 / 30)
        in if steps \<noteq> 0 then
             (let c3 = c2\<lparr>touchAccumulated := touchAccumulated c2 - of_int steps * 30\<rparr>;
                  c4 = c3\<lparr>durationMinutes := min 60 (max 1 (durationMinutes c3 + steps))\<rparr>;
                  c5 = c4\<lparr>remainingSeconds := durationMinutes c4 * 60\<rparr>
              in c5\<lparr>localStorage := setLastDuration (durationMinutes c5) (localStorage c5)\<rparr>)
           else c2)"

text \<open>\<open>u\<close> is the value of \<^verbatim>\<open>Math.random()\<close>.\<close>

definition scheduleNextAttentionCheck :: "rat \<Rightarrow> Component \<Rightarrow> Component" where
  "scheduleNextAttentionCheck u c = c\<lparr>nextAttentionCheck := 30 + \<lfloor>u * 91\<rfloor>\<rparr>"

definition clearAttentionCheck :: "Component \<Rightarrow> Component" where
  "clearAttentionCheck c =
     (let c1 = (case attentionTimeout c of
                  Some h \<Rightarrow> (clearTimer h c)\<lparr>attentionTimeout := None\<rparr>
                | None \<Rightarrow> c)
      in case attentionBarInterval c1 of
           Some h \<Rightarrow> (clearTimer h c1)\<lparr>attentionBarInterval := None\<rparr>
         | None \<Rightarrow> c1)"

definition cleanup :: "Component \<Rightarrow> Component" where
  "cleanup c =
     (let c1 = (case timerInterval c of
                  Some h \<Rightarrow> (clearTimer h c)\<lparr>timerInterval := None\<rparr>
                | None \<Rightarrow> c)
      in clearAttentionCheck c1)"

definition startSession :: "string \<Rightarrow> rat \<Rightarrow> Component \<Rightarrow> Component" where
  "startSession nowISO u c =
     (let c1 = c\<lparr>state := Running, sessionStartTime := nowISO, checksResponded := 0\<rparr>;
          c2 = c1\<lparr>remainingSeconds := durationMinutes c1 * 60\<rparr>;
          c3 = scheduleNextAttentionCheck u c2;
          (h, c4) = setTimer TimerTick c3
      in c4\<lparr>timerInterval := Some h\<rparr>)"

text \<open>\<open>nowMs\<close> is \<^verbatim>\<open>Date.now()\<close>, which the progress bar's callback keeps as its start.\<close>

definition triggerAttentionCheck :: "int \<Rightarrow> Component \<Rightarrow> Component" where
  "triggerAttentionCheck nowMs c =
     (let c1 = c\<lparr>state := AttentionCheck, attentionProgress := 100, attentionVisible := True\<rparr>;
          (hb, c2) = setTimer (BarUpdate nowMs) c1;
          c3 = c2\<lparr>attentionBarInterval := Some hb\<rparr>;
          (ht, c4) = setTimer AttentionFail c3
      in c4\<lparr>attentionTimeout := Some ht\<rparr>)"

definition respondToAttentionCheck :: "rat \<Rightarrow> Component \<Rightarrow> Component" where
  "respondToAttentionCheck u c =
     (if state c \<noteq> AttentionCheck then c
      else
        let c1 = c\<lparr>checksResponded := checksResponded c + 1\<rparr>;
            c2 = clearAttentionCheck c1;
            c3 = c2\<lparr>state := Running, attentionVisible := False\<rparr>
        in scheduleNextAttentionCheck u c3)"

definition completeTimer :: "Component \<Rightarrow> Component" where
  "completeTimer c = (cleanup c)\<lparr>state := Completed\<rparr>"

text \<open>\<open>newId\<close> is the value of \<^verbatim>\<open>generateId()\<close>, \<open>now\<close> the clock that \<open>saveSession\<close> reads.\<close>

definition failSession :: "Runtime \<Rightarrow> string \<Rightarrow> int \<Rightarrow> Component \<Rightarrow> Component" where
  "failSession rt newId now c =
     (let c1 = cleanup (clearAttentionCheck c);
          session = \<lparr>ident = JStr newId,
                     startTime = JStr (sessionStartTime c1),
                     duration = of_int (durationMinutes c1),
                     completed = False,
                     completedAt = JNull,
                     failedAttentionCheck = JBool True,
                     attentionChecksResponded = JNum (of_nat (checksResponded c1))\<rparr>;
          (data, ls) = saveSession rt now session (localStorage c1);
          c2 = c1\<lparr>localStorage := ls,
                 shownDays := getCompletedDays rt (sessions data),
                 shownStreak := currentStreak data\<rparr>;
          c3 = c2\<lparr>state := Failed, attentionVisible := False\<rparr>
      in c3\<lparr>remainingSeconds := durationMinutes c3 * 60\<rparr>)"

text \<open>\<open>nowISO\<close> is \<^verbatim>\<open>new Date().toISOString()\<close>, read only when \<open>stayedBored\<close> holds.\<close>

definition confirmCompletion :: "Runtime \<Rightarrow> string \<Rightarrow> string \<Rightarrow> int \<Rightarrow> bool \<Rightarrow> Component \<Rightarrow> Component" where
  "confirmCompletion rt newId nowISO now stayedBored c =
     (let session = \<lparr>ident = JStr newId,
                     startTime = JStr (sessionStartTime c),
                     duration = of_int (durationMinutes c),
                     completed = stayedBored,
                     completedAt = (if stayedBored then JStr nowISO else JNull),
                     failedAttentionCheck = JBool False,
                     attentionChecksResponded = JNum (of_nat (checksResponded c))\<rparr>;
          (data, ls) = saveSession rt now session (localStorage c);
          c1 = c\<lparr>localStorage := ls,
                shownDays := getCompletedDays rt (sessions data),
                shownStreak := currentStreak data\<rparr>;
          c2 = c1\<lparr>state := Idle\<rparr>
      in c2\<lparr>remainingSeconds := durationMinutes c2 * 60\<rparr>)"

definition dismissFailed :: "Component \<Rightarrow> Component" where
  "dismissFailed c = (let c1 = c\<lparr>state := Idle\<rparr> in c1\<lparr>remainingSeconds := durationMinutes c1 * 60\<rparr>)"

definition handleAction :: "string \<Rightarrow> rat \<Rightarrow> Component \<Rightarrow> Component" where
  "handleAction nowISO u c =
     (case state c of
        Idle \<Rightarrow> startSession nowISO u c
      | Running \<Rightarrow> c
      | AttentionCheck \<Rightarrow> respondToAttentionCheck u c
      | _ \<Rightarrow> c)"

text \<open>The three callbacks that timers run.\<close>

definition timerTick :: "int \<Rightarrow> Component \<Rightarrow> Component" where
  "timerTick nowMs c =
     (let c1 = c\<lparr>remainingSeconds := remainingSeconds c - 1\<rparr>;
          c2 = c1\<lparr>nextAttentionCheck := nextAttentionCheck c1 - 1\<rparr>;
          c3 = (if nextAttentionCheck c2 \<le> 0 \<and> state c2 = Running
                then triggerAttentionCheck nowMs c2 else c2)
      in if remainingSeconds c3 \<le> 0
         then completeTimer (c3\<lparr>remainingSeconds := 0\<rparr>)
         else c3)"

definition barUpdate :: "int \<Rightarrow> int \<Rightarrow> Component \<Rightarrow> Component" where
  "barUpdate startMs nowMs c =
     c\<lparr>attentionProgress := max 0 (100 - (of_int (nowMs - startMs) / 10000) * 100)\<rparr>"

text \<open>
  The browser runs the callback of the pending timer with handle \<open>h\<close>. A timeout leaves
  the table when it fires, an interval stays. A handle that is not pending runs nothing.
\<close>

definition fireTimer :: "Runtime \<Rightarrow> string \<Rightarrow> int \<Rightarrow> nat \<Rightarrow> Component \<Rightarrow> Component" where
  "fireTimer rt newId now h c =
     (case map_of (pendingTimers c) h of
        None \<Rightarrow> c
      | Some TimerTick \<Rightarrow> timerTick now c
      | Some (BarUpdate startMs) \<Rightarrow> barUpdate startMs now c
      | Some AttentionFail \<Rightarrow> failSession rt newId now (clearTimer h c))"

text \<open>
  The \<^verbatim>\<open>onload\<close> callback of the file reader, on the file's text. The message shown
  for five seconds and its timer are left out. When \<open>importData\<close> throws, the callback
  ends there.
\<close>

definition fileLoaded :: "Runtime \<Rightarrow> int \<Rightarrow> string \<Rightarrow> Component \<Rightarrow> Component" where
  "fileLoaded rt now fileText c =
     (case importData rt now fileText (localStorage c) of
        (Threw_TypeError, ls) \<Rightarrow> c\<lparr>localStorage := ls\<rparr>
      | (Returned r, ls) \<Rightarrow>
          if success r then
            (let c1 = c\<lparr>localStorage := ls\<rparr>;
                 data = loadData (localStorage c1)
             in c1\<lparr>shownDays := getCompletedDays rt (sessions data),
                   shownStreak := currentStreak data\<rparr>)
          else c\<lparr>localStorage := ls\<rparr>)"

text \<open>What the user and the browser can do to the component, and the steps they cause.\<close>

datatype event =
    Wheel rat
  | TouchStart rat
  | TouchMove rat
  | Action string rat
  | ConfirmCompletion string string int bool
  | DismissFailed
  | Fire string int nat
  | FileLoaded int string

fun step :: "Runtime \<Rightarrow> event \<Rightarrow> Component \<Rightarrow> Component" where
  "step rt (Wheel deltaY) c = handleWheel deltaY c"
| "step rt (TouchStart y) c = handleTouchStart y c"
| "step rt (TouchMove y) c = handleTouchMove y c"
| "step rt (Action nowISO u) c = handleAction nowISO u c"
| "step rt (ConfirmCompletion newId nowISO now stayedBored) c =
     (if state c = Completed then confirmCompletion rt newId nowISO now stayedBored c else c)"
| "step rt DismissFailed c = (if state c = Failed then dismissFailed c else c)"
| "step rt (Fire newId now h) c = fireTimer rt newId now h c"
| "step rt (FileLoaded now fileText) c = fileLoaded rt now fileText c"

text \<open>The component when it is mounted, before \<open>init\<close>, on a given storage.\<close>

definition mounted :: "Storage \<Rightarrow> Component" where
  "mounted ls =
     \<lparr>state = Idle, durationMinutes = 15, remainingSeconds = 0, attentionProgress = 100,
      checksResponded = 0, sessionStartTime = [], timerInterval = None,
      attentionTimeout = None, attentionBarInterval = None, nextAttentionCheck = 0,
      shownDays = [], shownStreak = 0, attentionVisible = False, touchStartY = 0,
      touchAccumulated = 0, localStorage = ls, pendingTimers = [], nextHandle = 1\<rparr>"

text \<open>The states the component can reach from there through events.\<close>

inductive reachable :: "Runtime \<Rightarrow> Component \<Rightarrow> bool" for rt :: Runtime where
  start: "reachable rt (init rt now (mounted ls))"
| after: "reachable rt c \<Longrightarrow> reachable rt (step rt e c)"

section \<open>What the specification speaks of\<close>

text \<open>The invariant of a session record: never both completed and failed on an attention
  check, and a completion time exactly on the completed records.\<close>

definition record_invariant :: "Session \<Rightarrow> bool" where
  "record_invariant s \<longleftrightarrow>
     \<not> (completed s \<and> failedAttentionCheck s = JBool True)
     \<and> ((completedAt s \<noteq> JNull) = completed s)"

text \<open>An entry of a bundle that has the four required fields.\<close>

definition has_required_fields :: "json \<Rightarrow> bool" where
  "has_required_fields e \<longleftrightarrow>
     e \<noteq> JNull
     \<and> truthy_opt (getProp e ''id'') \<and> truthy_opt (getProp e ''startTime'')
     \<and> typeof_number (getProp e ''duration'') \<and> typeof_boolean (getProp e ''completed'')"

text \<open>The id of an entry, the values that are strings, and the number a JSON value is.\<close>

definition entry_id :: "json \<Rightarrow> json" where
  "entry_id e = defined_value (getProp e ''id'')"









text \<open>Counting back from day \<open>d\<close>: the \<open>n\<close> days up to \<open>d\<close> are all completed, and the
  day before them is not.\<close>

definition counted_back :: "datestr set \<Rightarrow> int \<Rightarrow> nat \<Rightarrow> bool" where
  "counted_back D d n \<longleftrightarrow> (\<forall>k<n. Day (d - int k) \<in> D) \<and> Day (d - int n) \<notin> D"

text \<open>The state of the timers that goes with each state of the component.\<close>

definition timers_consistent :: "Component \<Rightarrow> bool" where
  "timers_consistent c \<longleftrightarrow>
     (case state c of
        Running \<Rightarrow>
          (\<exists>h. timerInterval c = Some h \<and> pendingTimers c = [(h, TimerTick)] \<and> h < nextHandle c)
          \<and> attentionTimeout c = None \<and> attentionBarInterval c = None
      | AttentionCheck \<Rightarrow>
          (\<exists>h hb ht startMs.
              timerInterval c = Some h \<and> attentionBarInterval c = Some hb
              \<and> attentionTimeout c = Some ht
              \<and> pendingTimers c = [(h, TimerTick), (hb, BarUpdate startMs), (ht, AttentionFail)]
              \<and> h < hb \<and> hb < ht \<and> ht < nextHandle c)
      | _ \<Rightarrow>
          timerInterval c = None \<and> attentionTimeout c = None \<and> attentionBarInterval c = None
          \<and> pendingTimers c = [])"

section \<open>Sample inputs\<close>

text \<open>
  A runtime five hours west of Greenwich and one two hours east of it. \<^verbatim>\<open>JSON.parse\<close> and
  \<^verbatim>\<open>new Date\<close> are given on the texts that the examples below use: the time value of
  \<^verbatim>\<open>2024-01-05T17:00:00.000Z\<close> is 1704474000000, day 19727 after 1970-01-01.
\<close>

definition sample_bundle :: string where
  \<open>sample_bundle = ''{"sessions":[{"id":"a","startTime":"2024-01-05T16:45:00.000Z","duration":15,"completed":true,"completedAt":"2024-01-05T17:00:00.000Z"}]}''\<close>

definition sample_entry :: json where
  "sample_entry = JObj
     [(''id'', JStr ''a''), (''startTime'', JStr ''2024-01-05T16:45:00.000Z''),
      (''duration'', JNum 15), (''completed'', JBool True),
      (''completedAt'', JStr ''2024-01-05T17:00:00.000Z'')]"

definition sample_bundle_failed_and_completed :: string where
  \<open>sample_bundle_failed_and_completed = ''{"sessions":[{"id":"a","startTime":"2024-01-05T16:45:00.000Z","duration":15,"completed":true,"failedAttentionCheck":true}]}''\<close>

definition sample_entry_failed_and_completed :: json where
  "sample_entry_failed_and_completed = JObj
     [(''id'', JStr ''a''), (''startTime'', JStr ''2024-01-05T16:45:00.000Z''),
      (''duration'', JNum 15), (''completed'', JBool True),
      (''failedAttentionCheck'', JBool True)]"

definition sample_bundle_object_id :: string where
  \<open>sample_bundle_object_id = ''{"sessions":[{"id":{},"startTime":"2024-01-05T16:45:00.000Z","duration":15,"completed":false}]}''\<close>

definition sample_entry_object_id :: json where
  "sample_entry_object_id = JObj
     [(''id'', JObj []), (''startTime'', JStr ''2024-01-05T16:45:00.000Z''),
      (''duration'', JNum 15), (''completed'', JBool False)]"

definition bundle_of :: "json list \<Rightarrow> json" where
  "bundle_of es = JObj [(''sessions'', JArr es)]"

definition sample_JSON_parse :: "string \<Rightarrow> json option" where
  \<open>sample_JSON_parse text =
     (if text = ''null'' then Some JNull
      else if text = ''{"sessions":[null]}'' then Some (bundle_of [JNull])
      else if text = ''{}'' then Some (JObj [])
      else if text = sample_bundle then Some (bundle_of [sample_entry])
      else if text = sample_bundle_failed_and_completed
        then Some (bundle_of [sample_entry_failed_and_completed])
      else if text = sample_bundle_object_id then Some (bundle_of [sample_entry_object_id])
      else None)\<close>

definition sample_Date_time :: "json \<Rightarrow> int option" where
  "sample_Date_time v =
     (if v = JStr ''2024-01-05T17:00:00.000Z'' then Some 1704474000000
      else if v = JStr ''2024-01-06T17:00:00.000Z'' then Some 1704560400000
      else if v = JStr ''2024-01-03T17:00:00.000Z'' then Some 1704301200000
      else None)"

definition runtime_west :: Runtime where
  "runtime_west = \<lparr>tzOffset = - 300, JSON_parse = sample_JSON_parse, Date_time = sample_Date_time\<rparr>"

definition runtime_east :: Runtime where
  "runtime_east = \<lparr>tzOffset = 120, JSON_parse = sample_JSON_parse, Date_time = sample_Date_time\<rparr>"

definition empty_storage :: Storage where
  "empty_storage = \<lparr>stored_data = None, stored_last_duration = None\<rparr>"


definition completed_session :: "string \<Rightarrow> string \<Rightarrow> Session" where
  "completed_session i finished =
     \<lparr>ident = JStr i, startTime = JStr ''2024-01-05T16:45:00.000Z'', duration = 15,
      completed = True, completedAt = JStr finished, failedAttentionCheck = JBool False,
      attentionChecksResponded = JNum 0\<rparr>"


text \<open>A component waiting for the answer to an attention check, seven minutes into a
  session of fifteen, with two checks answered before.\<close>

definition sample_checking :: Component where
  "sample_checking =
     \<lparr>state = AttentionCheck, durationMinutes = 15, remainingSeconds = 480,
      attentionProgress = 100, checksResponded = 2,
      sessionStartTime = ''2024-01-05T16:45:00.000Z'', timerInterval = Some 1,
      attentionTimeout = Some 7, attentionBarInterval = Some 6, nextAttentionCheck = 0,
      shownDays = [], shownStreak = 0, attentionVisible = True, touchStartY = 0,
      touchAccumulated = 0, localStorage = empty_storage,
      pendingTimers = [(1, TimerTick), (6, BarUpdate 1704473100000), (7, AttentionFail)],
      nextHandle = 8\<rparr>"


declare longestLoop.simps [simp del]
declare walkBack.simps [simp del]

section \<open>Facts about the store\<close>

lemma saveSession_sessions:
  "sessions (fst (saveSession rt now s ls)) = sessions (loadData ls) @ [s]"
  by (simp add: saveSession_def Let_def)

lemma saveSession_stored:
  "loadData (snd (saveSession rt now s ls)) = fst (saveSession rt now s ls)"
  by (simp add: saveSession_def Let_def saveData_def loadData_def)



lemma validateSessions_Valid:
  "validateSessions es = Valid \<longleftrightarrow> (\<forall>e\<in>set es. has_required_fields e)"
  by (induction es) (auto simp: has_required_fields_def)

lemma importLoop_eq:
  "importLoop ids es (ss, i, k) =
     (ss @ map normalized (filter (\<lambda>e. \<not> Set_has ids (entry_id e)) es),
      i + length (filter (\<lambda>e. \<not> Set_has ids (entry_id e)) es),
      k + length (filter (\<lambda>e. Set_has ids (entry_id e)) es))"
  by (induction es arbitrary: ss i k) (simp_all add: entry_id_def)

text \<open>The import of a bundle that passes the validation.\<close>

lemma importData_valid:
  assumes "JSON_parse rt fileText = Some parsed"
    and "getProp parsed ''sessions'' = Some (JArr es)"
    and "\<forall>e\<in>set es. has_required_fields e"
  shows "importData rt now fileText ls =
     (let old = sessions (loadData ls);
          fresh = filter (\<lambda>e. \<not> Set_has (map ident old) (entry_id e)) es;
          merged = old @ map normalized fresh;
          streaks = recalculateStreaks rt now merged
      in (Returned \<lparr>success = True,
                    message = Summary (length fresh)
                       (length (filter (\<lambda>e. Set_has (map ident old) (entry_id e)) es))\<rparr>,
          saveData ((loadData ls)\<lparr>sessions := merged,
                                  currentStreak := currentStreak streaks,
                                  longestStreak := longestStreak streaks\<rparr>) ls))"
proof -
  from assms(2) have "parsed \<noteq> JNull" by auto
  moreover from assms(3) have "validateSessions es = Valid"
    by (simp add: validateSessions_Valid)
  ultimately show ?thesis
    using assms(1,2) by (simp add: importData_def importLoop_eq Let_def)
qed

lemma importData_valid_fst:
  assumes "JSON_parse rt fileText = Some parsed"
    and "getProp parsed ''sessions'' = Some (JArr es)"
    and "\<forall>e\<in>set es. has_required_fields e"
  shows "fst (importData rt now fileText ls) =
     Returned \<lparr>success = True,
               message = Summary
                 (length (filter (\<lambda>e. \<not> Set_has (map ident (sessions (loadData ls))) (entry_id e)) es))
                 (length (filter (\<lambda>e. Set_has (map ident (sessions (loadData ls))) (entry_id e)) es))\<rparr>"
  unfolding importData_valid [OF assms] by (simp add: Let_def)

lemma importData_valid_sessions:
  assumes "JSON_parse rt fileText = Some parsed"
    and "getProp parsed ''sessions'' = Some (JArr es)"
    and "\<forall>e\<in>set es. has_required_fields e"
  shows "sessions (loadData (snd (importData rt now fileText ls))) =
     sessions (loadData ls)
     @ map normalized (filter (\<lambda>e. \<not> Set_has (map ident (sessions (loadData ls))) (entry_id e)) es)"
  unfolding importData_valid [OF assms] by (simp add: Let_def saveData_def loadData_def)

lemma importData_unchanged_unless_success:
  "snd (importData rt now fileText ls) = ls
   \<or> (\<exists>i k. fst (importData rt now fileText ls) = Returned \<lparr>success = True, message = Summary i k\<rparr>)"
  by (auto simp: importData_def Let_def split: option.splits json.splits validation.splits prod.splits)



lemma sample_parse:
  "JSON_parse runtime_east sample_bundle = Some (bundle_of [sample_entry])"
  "JSON_parse runtime_east sample_bundle_failed_and_completed
     = Some (bundle_of [sample_entry_failed_and_completed])"
  "JSON_parse runtime_east sample_bundle_object_id = Some (bundle_of [sample_entry_object_id])"
  by (simp_all add: runtime_east_def sample_JSON_parse_def sample_bundle_def
        sample_bundle_failed_and_completed_def sample_bundle_object_id_def)

lemma bundle_of_sessions: "getProp (bundle_of es) ''sessions'' = Some (JArr es)"
  by (simp add: bundle_of_def)

lemma sample_entries_valid:
  "has_required_fields sample_entry"
  "has_required_fields sample_entry_failed_and_completed"
  "has_required_fields sample_entry_object_id"
  by (simp_all add: has_required_fields_def sample_entry_def
        sample_entry_failed_and_completed_def sample_entry_object_id_def)

text \<open>What \<open>importData\<close> rejects with an error result, the storage unchanged: text that
  does not parse, a value other than null without a \<^verbatim>\<open>sessions\<close> array, and an array
  without null in which an entry lacks a required field.\<close>

lemma importData_rejects:
  "JSON_parse rt fileText = None \<Longrightarrow>
     importData rt now fileText ls = (Returned \<lparr>success = False, message = InvalidFormat\<rparr>, ls)"
  "JSON_parse rt fileText = Some parsed \<Longrightarrow> parsed \<noteq> JNull \<Longrightarrow>
     \<not> Array_isArray (getProp parsed ''sessions'') \<Longrightarrow>
     importData rt now fileText ls = (Returned \<lparr>success = False, message = MissingData\<rparr>, ls)"
  "JSON_parse rt fileText = Some parsed \<Longrightarrow> getProp parsed ''sessions'' = Some (JArr es) \<Longrightarrow>
     JNull \<notin> set es \<Longrightarrow> \<not> (\<forall>e\<in>set es. has_required_fields e) \<Longrightarrow>
     importData rt now fileText ls = (Returned \<lparr>success = False, message = MissingData\<rparr>, ls)"
proof -
  show "JSON_parse rt fileText = None \<Longrightarrow>
     importData rt now fileText ls = (Returned \<lparr>success = False, message = InvalidFormat\<rparr>, ls)"
    by (simp add: importData_def)
  show "JSON_parse rt fileText = Some parsed \<Longrightarrow> parsed \<noteq> JNull \<Longrightarrow>
     \<not> Array_isArray (getProp parsed ''sessions'') \<Longrightarrow>
     importData rt now fileText ls = (Returned \<lparr>success = False, message = MissingData\<rparr>, ls)"
    by (simp add: importData_def)
  have v: "JNull \<notin> set es \<Longrightarrow> \<not> (\<forall>e\<in>set es. has_required_fields e)
      \<Longrightarrow> validateSessions es = Invalid" for es
    by (induction es) (auto simp: has_required_fields_def)
  show "JSON_parse rt fileText = Some parsed \<Longrightarrow> getProp parsed ''sessions'' = Some (JArr es) \<Longrightarrow>
     JNull \<notin> set es \<Longrightarrow> \<not> (\<forall>e\<in>set es. has_required_fields e) \<Longrightarrow>
     importData rt now fileText ls = (Returned \<lparr>success = False, message = MissingData\<rparr>, ls)"
    using v [of es] by (auto simp: importData_def)
qed

section \<open>Facts about the streaks\<close>

lemma datestr_less_simps [simp]:
  "Day a < Day b \<longleftrightarrow> a < b" "Day a < NaN_NaN_NaN" "\<not> NaN_NaN_NaN < x"
  by (cases x; simp add: less_datestr_def; fail | auto simp: less_datestr_def)+



















text \<open>The backward walk counts the completed days up to the day it starts from.\<close>

lemma walkBack_counts:
  "\<exists>n. walkBack rt days t c = c + n \<and> counted_back (set days) (localDay rt t) n"
proof (induction rt days t c rule: walkBack.induct)
  case (1 rt days t c)
  let ?d = "localDay rt t"
  show ?case
  proof (cases "Day ?d \<in> set days")
    case True
    then have m: "formatLocal rt (Some t) \<in> set days" by simp
    from "1.IH" [OF m] obtain n where
      n: "walkBack rt days (setDate_previous t) (c + 1) = c + 1 + n"
         "counted_back (set days) (localDay rt (setDate_previous t)) n"
      by blast
    have prev: "localDay rt (setDate_previous t) = ?d - 1"
      by (simp add: localDay_def setDate_previous_def msPerDay_def)
    have "counted_back (set days) ?d (Suc n)"
      unfolding counted_back_def
    proof (intro conjI allI impI)
      fix k assume k: "k < Suc n"
      show "Day (?d - int k) \<in> set days"
      proof (cases k)
        case 0 with True show ?thesis by simp
      next
        case (Suc j)
        with k n(2) have "Day (?d - 1 - int j) \<in> set days"
          by (simp add: counted_back_def prev)
        with Suc show ?thesis by (simp add: algebra_simps)
      qed
    next
      from n(2) have "Day (?d - 1 - int n) \<notin> set days"
        by (simp add: counted_back_def prev)
      then show "Day (?d - int (Suc n)) \<notin> set days" by (simp add: algebra_simps)
    qed
    moreover have "walkBack rt days t c = c + Suc n"
      using m n(1) by (subst walkBack.simps) simp
    ultimately show ?thesis by blast
  next
    case False
    then have "walkBack rt days t c = c + 0"
      by (subst walkBack.simps) simp
    moreover from False have "counted_back (set days) ?d 0"
      by (simp add: counted_back_def)
    ultimately show ?thesis by blast
  qed
qed

lemma walkBack_counted: "counted_back (set days) (localDay rt t) (walkBack rt days t 0)"
  using walkBack_counts [of rt days t 0] by auto

text \<open>
  Midnight UTC of a day is that day in local time east of Greenwich, and the day before
  west of it.
\<close>

lemma localDay_midnight_east:
  "0 \<le> tzOffset rt \<Longrightarrow> tzOffset rt < 1440 \<Longrightarrow> localDay rt (Date_of_day d) = d"
  unfolding localDay_def msPerDay_def Date_of_day_def
  by (rule int_div_pos_eq [where r = "tzOffset rt * 60000"]) simp_all

lemma localDay_midnight_west:
  "- 1440 \<le> tzOffset rt \<Longrightarrow> tzOffset rt < 0 \<Longrightarrow> localDay rt (Date_of_day d) = d - 1"
  unfolding localDay_def msPerDay_def Date_of_day_def
  by (rule int_div_pos_eq [where r = "tzOffset rt * 60000 + 86400000"]) simp_all

lemma localDay_previous: "localDay rt (setDate_previous t) = localDay rt t - 1"
  by (simp add: localDay_def setDate_previous_def msPerDay_def)

lemma currentStreak_cases:
  assumes "localDay rt (Date_of_day (localDay rt now)) = start"
  shows "currentStreak (recalculateStreaks rt now ss) =
    (if getCompletedDays rt ss = [] then 0
     else if Day (localDay rt now) \<in> set (getCompletedDays rt ss)
       then walkBack rt (getCompletedDays rt ss) (Date_of_day (localDay rt now)) 0
     else if Day (start - 1) \<in> set (getCompletedDays rt ss)
       then walkBack rt (getCompletedDays rt ss) (setDate_previous (Date_of_day (localDay rt now))) 0
     else 0)"
  using assms by (simp add: recalculateStreaks_def Let_def localDay_previous)

text \<open>
  East of Greenwich (and at it) the current streak is 0 when neither today nor yesterday
  is completed, and otherwise the count back from today, or from yesterday when today is
  not completed.
\<close>

lemma current_streak_east:
  assumes "0 \<le> tzOffset rt" and "tzOffset rt < 1440"
  shows "(Day (localDay rt now) \<notin> set (getCompletedDays rt ss)
          \<and> Day (localDay rt now - 1) \<notin> set (getCompletedDays rt ss)
          \<longrightarrow> currentStreak (recalculateStreaks rt now ss) = 0)
    \<and> (Day (localDay rt now) \<in> set (getCompletedDays rt ss)
          \<longrightarrow> counted_back (set (getCompletedDays rt ss)) (localDay rt now)
                (currentStreak (recalculateStreaks rt now ss)))
    \<and> (Day (localDay rt now) \<notin> set (getCompletedDays rt ss)
          \<and> Day (localDay rt now - 1) \<in> set (getCompletedDays rt ss)
          \<longrightarrow> counted_back (set (getCompletedDays rt ss)) (localDay rt now - 1)
                (currentStreak (recalculateStreaks rt now ss)))"
proof -
  let ?days = "getCompletedDays rt ss" and ?d = "localDay rt now"
  have mid: "localDay rt (Date_of_day ?d) = ?d"
    using assms by (rule localDay_midnight_east)
  have a: "counted_back (set ?days) ?d (walkBack rt ?days (Date_of_day ?d) 0)"
    using walkBack_counted [of ?days rt "Date_of_day ?d"] by (simp add: mid)
  have b: "counted_back (set ?days) (?d - 1) (walkBack rt ?days (setDate_previous (Date_of_day ?d)) 0)"
    using walkBack_counted [of ?days rt "setDate_previous (Date_of_day ?d)"]
    by (simp add: mid localDay_previous)
  show ?thesis
    unfolding currentStreak_cases [OF mid] using a b by auto
qed

text \<open>
  West of Greenwich the walk starts a day early: when today is completed the count starts
  from yesterday, and otherwise it starts from the day before yesterday, or the streak is
  0 when that day is not completed.
\<close>

lemma current_streak_west:
  assumes "- 1440 \<le> tzOffset rt" and "tzOffset rt < 0"
  shows "(Day (localDay rt now) \<in> set (getCompletedDays rt ss)
          \<longrightarrow> counted_back (set (getCompletedDays rt ss)) (localDay rt now - 1)
                (currentStreak (recalculateStreaks rt now ss)))
    \<and> (Day (localDay rt now) \<notin> set (getCompletedDays rt ss)
          \<and> Day (localDay rt now - 2) \<notin> set (getCompletedDays rt ss)
          \<longrightarrow> currentStreak (recalculateStreaks rt now ss) = 0)
    \<and> (Day (localDay rt now) \<notin> set (getCompletedDays rt ss)
          \<and> Day (localDay rt now - 2) \<in> set (getCompletedDays rt ss)
          \<longrightarrow> counted_back (set (getCompletedDays rt ss)) (localDay rt now - 2)
                (currentStreak (recalculateStreaks rt now ss)))"
proof -
  let ?days = "getCompletedDays rt ss" and ?d = "localDay rt now"
  have mid: "localDay rt (Date_of_day ?d) = ?d - 1"
    using assms by (rule localDay_midnight_west)
  have a: "counted_back (set ?days) (?d - 1) (walkBack rt ?days (Date_of_day ?d) 0)"
    using walkBack_counted [of ?days rt "Date_of_day ?d"] by (simp add: mid)
  have b: "counted_back (set ?days) (?d - 2) (walkBack rt ?days (setDate_previous (Date_of_day ?d)) 0)"
    using walkBack_counted [of ?days rt "setDate_previous (Date_of_day ?d)"]
    by (simp add: mid localDay_previous)
  show ?thesis
    unfolding currentStreak_cases [OF mid] using a b by auto
qed

lemma sample_days_west:
  "getCompletedDays runtime_west [completed_session ''a'' ''2024-01-05T17:00:00.000Z'']
     = [Day 19727]"
  "localDay runtime_west 1704560400000 = 19728"
  by (simp_all add: getCompletedDays_def completed_session_def toLocalDateString_def
        runtime_west_def sample_Date_time_def localDay_def msPerDay_def Set_add_def)



section \<open>Facts about the component\<close>

lemma clearAttentionCheck_frame:
  "state (clearAttentionCheck c) = state c"
  "localStorage (clearAttentionCheck c) = localStorage c"
  "durationMinutes (clearAttentionCheck c) = durationMinutes c"
  "checksResponded (clearAttentionCheck c) = checksResponded c"
  "sessionStartTime (clearAttentionCheck c) = sessionStartTime c"
  "timerInterval (clearAttentionCheck c) = timerInterval c"
  "attentionTimeout (clearAttentionCheck c) = None"
  "attentionBarInterval (clearAttentionCheck c) = None"
  "nextHandle (clearAttentionCheck c) = nextHandle c"
  by (simp_all add: clearAttentionCheck_def clearTimer_def Let_def split: option.splits)

lemma cleanup_frame:
  "state (cleanup c) = state c"
  "localStorage (cleanup c) = localStorage c"
  "durationMinutes (cleanup c) = durationMinutes c"
  "checksResponded (cleanup c) = checksResponded c"
  "sessionStartTime (cleanup c) = sessionStartTime c"
  "timerInterval (cleanup c) = None"
  "attentionTimeout (cleanup c) = None"
  "attentionBarInterval (cleanup c) = None"
  "nextHandle (cleanup c) = nextHandle c"
  by (simp_all add: cleanup_def clearAttentionCheck_frame clearTimer_def Let_def split: option.splits)

lemma failSession_effect:
  "state (failSession rt newId now c) = Failed"
  "timerInterval (failSession rt newId now c) = None"
  "attentionTimeout (failSession rt newId now c) = None"
  "attentionBarInterval (failSession rt newId now c) = None"
  "pendingTimers (failSession rt newId now c) = pendingTimers (cleanup (clearAttentionCheck c))"
  "nextHandle (failSession rt newId now c) = nextHandle c"
  "durationMinutes (failSession rt newId now c) = durationMinutes c"
  "remainingSeconds (failSession rt newId now c) = durationMinutes c * 60"
  "sessions (loadData (localStorage (failSession rt newId now c)))
     = sessions (loadData (localStorage c))
       @ [\<lparr>ident = JStr newId, startTime = JStr (sessionStartTime c),
           duration = of_int (durationMinutes c), completed = False, completedAt = JNull,
           failedAttentionCheck = JBool True,
           attentionChecksResponded = JNum (of_nat (checksResponded c))\<rparr>]"
  by (simp_all add: failSession_def Let_def case_prod_beta cleanup_frame clearAttentionCheck_frame
        saveSession_stored saveSession_sessions)

lemma confirmCompletion_effect:
  "state (confirmCompletion rt newId nowISO now b c) = Idle"
  "timerInterval (confirmCompletion rt newId nowISO now b c) = timerInterval c"
  "attentionTimeout (confirmCompletion rt newId nowISO now b c) = attentionTimeout c"
  "attentionBarInterval (confirmCompletion rt newId nowISO now b c) = attentionBarInterval c"
  "pendingTimers (confirmCompletion rt newId nowISO now b c) = pendingTimers c"
  "nextHandle (confirmCompletion rt newId nowISO now b c) = nextHandle c"
  "durationMinutes (confirmCompletion rt newId nowISO now b c) = durationMinutes c"
  "remainingSeconds (confirmCompletion rt newId nowISO now b c) = durationMinutes c * 60"
  "sessions (loadData (localStorage (confirmCompletion rt newId nowISO now b c)))
     = sessions (loadData (localStorage c))
       @ [\<lparr>ident = JStr newId, startTime = JStr (sessionStartTime c),
           duration = of_int (durationMinutes c), completed = b,
           completedAt = (if b then JStr nowISO else JNull),
           failedAttentionCheck = JBool False,
           attentionChecksResponded = JNum (of_nat (checksResponded c))\<rparr>]"
  by (simp_all add: confirmCompletion_def Let_def case_prod_beta
        saveSession_stored saveSession_sessions)
text \<open>Every handler keeps the timers consistent with the state, so they are in every
  reachable state.\<close>

lemma timers_consistent_frame:
  assumes "state c' = state c" "timerInterval c' = timerInterval c"
    "attentionTimeout c' = attentionTimeout c" "attentionBarInterval c' = attentionBarInterval c"
    "pendingTimers c' = pendingTimers c" "nextHandle c' = nextHandle c"
  shows "timers_consistent c' = timers_consistent c"
  using assms by (cases "state c") (simp_all add: timers_consistent_def)

lemma handleWheel_consistent: "timers_consistent c \<Longrightarrow> timers_consistent (handleWheel d c)"
  by (cases "state c") (simp_all add: handleWheel_def Let_def timers_consistent_def)

lemma handleTouchStart_consistent: "timers_consistent c \<Longrightarrow> timers_consistent (handleTouchStart y c)"
  by (cases "state c") (simp_all add: handleTouchStart_def Let_def timers_consistent_def)

lemma handleTouchMove_consistent: "timers_consistent c \<Longrightarrow> timers_consistent (handleTouchMove y c)"
  by (cases "state c") (simp_all add: handleTouchMove_def Let_def timers_consistent_def)

lemma startSession_consistent:
  "timers_consistent c \<Longrightarrow> state c = Idle \<Longrightarrow> timers_consistent (startSession nowISO u c)"
  by (simp add: startSession_def Let_def timers_consistent_def setTimer_def
        scheduleNextAttentionCheck_def)

lemma respond_consistent:
  "timers_consistent c \<Longrightarrow> timers_consistent (respondToAttentionCheck u c)"
  by (cases "state c")
    (auto simp: respondToAttentionCheck_def Let_def timers_consistent_def clearAttentionCheck_def
        clearTimer_def scheduleNextAttentionCheck_def)

lemma handleAction_consistent:
  "timers_consistent c \<Longrightarrow> timers_consistent (handleAction nowISO u c)"
  by (cases "state c") (simp_all add: handleAction_def startSession_consistent respond_consistent)

lemma cleanup_consistent:
  assumes "timers_consistent c"
  shows "pendingTimers (cleanup c) = []" "timerInterval (cleanup c) = None"
    "attentionTimeout (cleanup c) = None" "attentionBarInterval (cleanup c) = None"
    "state (cleanup c) = state c"
  using assms
  by (cases "state c";
      auto simp: cleanup_def clearAttentionCheck_def clearTimer_def Let_def timers_consistent_def)+

lemma completeTimer_consistent:
  "timers_consistent c \<Longrightarrow> timers_consistent (completeTimer c)"
  by (simp add: completeTimer_def timers_consistent_def cleanup_consistent(1-4))

lemma triggerAttentionCheck_consistent:
  "timers_consistent c \<Longrightarrow> state c = Running \<Longrightarrow> timers_consistent (triggerAttentionCheck nowMs c)"
  by (auto simp: triggerAttentionCheck_def Let_def timers_consistent_def setTimer_def)

lemma timerTick_consistent:
  assumes "timers_consistent c"
  shows "timers_consistent (timerTick nowMs c)"
proof -
  let ?c2 = "c\<lparr>remainingSeconds := remainingSeconds c - 1,
                 nextAttentionCheck := nextAttentionCheck c - 1\<rparr>"
  let ?c3 = "if nextAttentionCheck ?c2 \<le> 0 \<and> state ?c2 = Running
             then triggerAttentionCheck nowMs ?c2 else ?c2"
  have c2: "timers_consistent ?c2"
    using assms timers_consistent_frame [of ?c2 c] by simp
  have c3: "timers_consistent ?c3"
    using c2 triggerAttentionCheck_consistent [of ?c2 nowMs] by simp
  have c3': "timers_consistent (?c3\<lparr>remainingSeconds := 0\<rparr>)"
    using c3 timers_consistent_frame [of "?c3\<lparr>remainingSeconds := 0\<rparr>" ?c3] by simp
  have "timerTick nowMs c =
      (if remainingSeconds ?c3 \<le> 0 then completeTimer (?c3\<lparr>remainingSeconds := 0\<rparr>) else ?c3)"
    by (simp add: timerTick_def Let_def)
  then show ?thesis
    using c3 completeTimer_consistent [OF c3'] by simp
qed

lemma barUpdate_consistent:
  "timers_consistent c \<Longrightarrow> timers_consistent (barUpdate s n c)"
  using timers_consistent_frame [of "barUpdate s n c" c] by (simp add: barUpdate_def)

lemma failSession_consistent:
  "timers_consistent c \<Longrightarrow> timers_consistent (failSession rt newId now c)"
proof -
  assume a: "timers_consistent c"
  have p: "pendingTimers (cleanup (clearAttentionCheck c)) = []"
    using a
    by (cases "state c")
       (auto simp: cleanup_def clearAttentionCheck_def clearTimer_def Let_def timers_consistent_def)
  show ?thesis
    by (simp add: timers_consistent_def failSession_effect p)
qed

lemma clearTimer_consistent_fail:
  assumes "timers_consistent c" "map_of (pendingTimers c) h = Some AttentionFail"
  shows "timers_consistent (failSession rt newId now (clearTimer h c))"
proof -
  from assms have st: "state c = AttentionCheck"
    by (cases "state c") (auto simp: timers_consistent_def split: if_splits)
  with assms(1) obtain t hb ht startMs where
    v: "timerInterval c = Some t" "attentionBarInterval c = Some hb" "attentionTimeout c = Some ht"
       "pendingTimers c = [(t, TimerTick), (hb, BarUpdate startMs), (ht, AttentionFail)]"
       "t < hb" "hb < ht"
    by (auto simp: timers_consistent_def)
  have p: "pendingTimers (cleanup (clearAttentionCheck (clearTimer h c))) = []"
    using v by (simp add: cleanup_def clearAttentionCheck_def clearTimer_def Let_def)
  show ?thesis
    by (simp add: timers_consistent_def failSession_effect p)
qed

lemma fireTimer_consistent:
  assumes "timers_consistent c"
  shows "timers_consistent (fireTimer rt newId now h c)"
proof (cases "map_of (pendingTimers c) h")
  case None
  with assms show ?thesis by (simp add: fireTimer_def)
next
  case (Some cb)
  show ?thesis
  proof (cases cb)
    case TimerTick
    with Some assms show ?thesis by (simp add: fireTimer_def timerTick_consistent)
  next
    case (BarUpdate s)
    with Some assms show ?thesis by (simp add: fireTimer_def barUpdate_consistent)
  next
    case AttentionFail
    with Some assms show ?thesis by (simp add: fireTimer_def clearTimer_consistent_fail)
  qed
qed

lemma confirmCompletion_consistent:
  "timers_consistent c \<Longrightarrow> state c = Completed \<Longrightarrow>
   timers_consistent (confirmCompletion rt newId nowISO now b c)"
  by (simp add: timers_consistent_def confirmCompletion_effect)

lemma dismissFailed_consistent:
  "timers_consistent c \<Longrightarrow> state c = Failed \<Longrightarrow> timers_consistent (dismissFailed c)"
  by (simp add: timers_consistent_def dismissFailed_def Let_def)

lemma fileLoaded_consistent:
  "timers_consistent c \<Longrightarrow> timers_consistent (fileLoaded rt now fileText c)"
proof -
  assume a: "timers_consistent c"
  have "timers_consistent (fileLoaded rt now fileText c) = timers_consistent c"
    by (rule timers_consistent_frame)
       (simp_all add: fileLoaded_def Let_def split: prod.splits outcome.splits)
  with a show ?thesis by simp
qed

lemma step_consistent:
  "timers_consistent c \<Longrightarrow> timers_consistent (step rt e c)"
  by (cases e)
     (simp_all add: handleWheel_consistent handleTouchStart_consistent handleTouchMove_consistent
        handleAction_consistent confirmCompletion_consistent dismissFailed_consistent
        fireTimer_consistent fileLoaded_consistent)

lemma reachable_consistent: "reachable rt c \<Longrightarrow> timers_consistent c"
proof (induction rule: reachable.induct)
  case (start now ls)
  show ?case by (simp add: init_def Let_def mounted_def timers_consistent_def)
next
  case (after c e)
  then show ?case by (simp add: step_consistent)
qed

text \<open>The duration stays between 1 and 60 minutes.\<close>

lemma getLastDuration_range: "1 \<le> getLastDuration ls \<and> getLastDuration ls \<le> 60"
  by (simp add: getLastDuration_def split: option.splits)

lemma clearAttentionCheck_duration [simp]:
  "durationMinutes (clearAttentionCheck c) = durationMinutes c"
  by (rule clearAttentionCheck_frame)

lemma cleanup_duration [simp]: "durationMinutes (cleanup c) = durationMinutes c"
  by (rule cleanup_frame)

lemma triggerAttentionCheck_duration [simp]:
  "durationMinutes (triggerAttentionCheck nowMs c) = durationMinutes c"
  by (simp add: triggerAttentionCheck_def Let_def setTimer_def)

lemma fireTimer_duration: "durationMinutes (fireTimer rt newId now h c) = durationMinutes c"
  by (simp add: fireTimer_def timerTick_def barUpdate_def completeTimer_def Let_def
        failSession_effect clearTimer_def
      split: option.splits callback.splits)

lemma step_duration_range:
  assumes "1 \<le> durationMinutes c \<and> durationMinutes c \<le> 60"
  shows "1 \<le> durationMinutes (step rt e c) \<and> durationMinutes (step rt e c) \<le> 60"
proof (cases e)
  case (Wheel d)
  with assms show ?thesis by (simp add: handleWheel_def Let_def)
next
  case (TouchStart y)
  with assms show ?thesis by (simp add: handleTouchStart_def)
next
  case (TouchMove y)
  with assms show ?thesis by (simp add: handleTouchMove_def Let_def)
next
  case (Action nowISO u)
  with assms show ?thesis
    by (cases "state c")
       (simp_all add: handleAction_def startSession_def respondToAttentionCheck_def Let_def
          setTimer_def scheduleNextAttentionCheck_def)
next
  case (ConfirmCompletion newId nowISO now b)
  with assms show ?thesis by (simp add: confirmCompletion_effect)
next
  case DismissFailed
  with assms show ?thesis by (simp add: dismissFailed_def Let_def)
next
  case (Fire newId now h)
  with assms show ?thesis by (simp add: fireTimer_duration)
next
  case (FileLoaded now fileText)
  with assms show ?thesis
    by (simp add: fileLoaded_def Let_def split: prod.splits outcome.splits)
qed

lemma reachable_duration_range:
  "reachable rt c \<Longrightarrow> 1 \<le> durationMinutes c \<and> durationMinutes c \<le> 60"
proof (induction rule: reachable.induct)
  case (start now ls)
  show ?case using getLastDuration_range [of ls] by (simp add: init_def Let_def mounted_def)
next
  case (after c e)
  from step_duration_range [OF after.IH] show ?case .
qed

text \<open>
  When the countdown reaches zero while an attention check waits for its answer, the tick
  ends the check: the component asks for the confirmation, the response timeout is
  cancelled, and nothing is stored.
\<close>

lemma countdown_ends_during_check:
  assumes "timers_consistent c" and "state c = AttentionCheck" and "timerInterval c = Some h"
    and "remainingSeconds c \<le> 1"
  shows "state (fireTimer rt newId now h c) = Completed"
    and "pendingTimers (fireTimer rt newId now h c) = []"
    and "localStorage (fireTimer rt newId now h c) = localStorage c"
proof -
  from assms(1,2,3) obtain hb ht startMs where
    p: "pendingTimers c = [(h, TimerTick), (hb, BarUpdate startMs), (ht, AttentionFail)]"
    by (auto simp: timers_consistent_def)
  let ?c2 = "c\<lparr>remainingSeconds := remainingSeconds c - 1,
                 nextAttentionCheck := nextAttentionCheck c - 1\<rparr>"
  have c2: "timers_consistent (?c2\<lparr>remainingSeconds := 0\<rparr>)"
    using assms(1) timers_consistent_frame [of "?c2\<lparr>remainingSeconds := 0\<rparr>" c] by simp
  have f: "fireTimer rt newId now h c = completeTimer (?c2\<lparr>remainingSeconds := 0\<rparr>)"
    using assms(2,4) by (simp add: fireTimer_def p timerTick_def Let_def)
  show "state (fireTimer rt newId now h c) = Completed"
    by (simp add: f completeTimer_def)
  show "pendingTimers (fireTimer rt newId now h c) = []"
    using cleanup_consistent(1) [OF c2] by (simp add: f completeTimer_def)
  show "localStorage (fireTimer rt newId now h c) = localStorage c"
    by (simp add: f completeTimer_def cleanup_frame)
qed

section \<open>The claims\<close>

text \<open>
  Claim C1, at a browser five hours west of Greenwich. The only session was completed on
  5 January 2024 at noon local time, and it is noon of 6 January: the completed days are
  day 19727 alone and today is day 19728, so yesterday is completed and today is not, and
  the claim gives a current streak of 1. The code gives 0: \<^verbatim>\<open>new Date(todayStr)\<close> is midnight
  UTC, which is the evening before in local time, so the day it calls yesterday is the
  day before yesterday. On 5 January itself the session of that day does not count
  either. Two hours east of Greenwich the same input gives 1.
\<close>

theorem current_streak_lost_west_of_greenwich:
  "getCompletedDays runtime_west [completed_session ''a'' ''2024-01-05T17:00:00.000Z'']
     = [Day 19727]
   \<and> localDay runtime_west 1704560400000 = 19728
   \<and> currentStreak (recalculateStreaks runtime_west 1704560400000
        [completed_session ''a'' ''2024-01-05T17:00:00.000Z'']) = 0
   \<and> currentStreak (recalculateStreaks runtime_west 1704474000000
        [completed_session ''a'' ''2024-01-05T17:00:00.000Z'']) = 0
   \<and> currentStreak (recalculateStreaks runtime_east 1704560400000
        [completed_session ''a'' ''2024-01-05T17:00:00.000Z'']) = 1"
  by (simp add: recalculateStreaks_def Let_def getCompletedDays_def completed_session_def
        toLocalDateString_def runtime_west_def runtime_east_def sample_Date_time_def
        localDay_def msPerDay_def Date_of_day_def Set_add_def setDate_previous_def walkBack.simps)




text \<open>
  Claim C3, as amended. The record that the failure path appends, and the record that
  either answer to the completion prompt appends, satisfy the invariant of a session
  record. The record built for an imported entry satisfies it exactly when the entry's
  own \<^verbatim>\<open>completed\<close>, \<^verbatim>\<open>completedAt\<close> and \<^verbatim>\<open>failedAttentionCheck\<close> do.
\<close>

theorem controller_records_invariant:
  "(\<exists>s. sessions (loadData (localStorage (failSession rt newId now c)))
            = sessions (loadData (localStorage c)) @ [s] \<and> record_invariant s)
   \<and> (\<exists>s. sessions (loadData (localStorage (confirmCompletion rt newId nowISO now b c)))
            = sessions (loadData (localStorage c)) @ [s] \<and> record_invariant s)
   \<and> (record_invariant (normalized e) \<longleftrightarrow>
        \<not> (boolean_value (getProp e ''completed'')
            \<and> getProp e ''failedAttentionCheck'' = Some (JBool True))
        \<and> (truthy_opt (getProp e ''completedAt'') = boolean_value (getProp e ''completed'')))"
proof -
  have a: "or_default v (JBool False) = JBool True \<longleftrightarrow> v = Some (JBool True)" for v
    by (cases v) auto
  have b: "or_default v JNull \<noteq> JNull \<longleftrightarrow> truthy_opt v" for v
    by (cases v) auto
  show ?thesis
    by (simp add: failSession_effect confirmCompletion_effect record_invariant_def
          normalized_def a b del: or_default.simps)
qed

text \<open>A bundle entry that is completed, failed an attention check and has no completion
  time is imported as it is.\<close>

theorem import_breaks_record_invariant:
  "fst (importData runtime_east 1704560400000 sample_bundle_failed_and_completed empty_storage)
     = Returned \<lparr>success = True, message = Summary 1 0\<rparr>
   \<and> \<not> record_invariant (last (sessions (loadData (snd (importData runtime_east 1704560400000
          sample_bundle_failed_and_completed empty_storage)))))"
proof -
  have h3: "\<forall>e\<in>set [sample_entry_failed_and_completed]. has_required_fields e"
    by (simp add: sample_entries_valid)
  have no: "\<not> Set_has [] v" for v
    by (simp add: Set_has_def)
  have bad: "\<not> record_invariant (normalized sample_entry_failed_and_completed)"
    by (simp add: record_invariant_def normalized_def sample_entry_failed_and_completed_def)
  have e: "sessions (loadData empty_storage) = []"
    by (simp add: empty_storage_def loadData_def getDefaultData_def)
  show ?thesis
    unfolding importData_valid_fst [OF sample_parse(2) bundle_of_sessions h3]
      importData_valid_sessions [OF sample_parse(2) bundle_of_sessions h3]
    by (simp add: no bad e)
qed

text \<open>
  Claim C4 at the text \<^verbatim>\<open>null\<close>, and at a bundle whose array holds \<^verbatim>\<open>null\<close>: both parse,
  the first has no \<^verbatim>\<open>sessions\<close> array and the entry of the second has none of the
  required fields. \<open>importData\<close> returns no result for them; reading a property of null
  throws. The storage is as before.
\<close>

theorem import_null_throws:
  \<open>importData runtime_east now ''null'' ls = (Threw_TypeError, ls)
   \<and> importData runtime_east now ''{"sessions":[null]}'' ls = (Threw_TypeError, ls)\<close>
  by (simp add: importData_def runtime_east_def sample_JSON_parse_def bundle_of_def)

theorem import_null_throws_witness:
  "importData runtime_east 1704560400000 ''null'' empty_storage = (Threw_TypeError, empty_storage)"
  using import_null_throws [of 1704560400000 empty_storage] by simp









text \<open>
  Claim C8. Outside the state \<open>Idle\<close> the wheel and the touch handlers change nothing.
  In \<open>Idle\<close>, with a duration between 1 and 60 (as in every reachable state), a wheel step
  moves the duration one minute up, to 60 at most, or one minute down, to 1 at least; a
  touch move of at least thirty pixels puts it between 1 and 60. Both set the countdown
  to the duration times 60 and store the duration, so that \<open>getLastDuration\<close> returns it.
\<close>

theorem duration_adjustment:
  "(state c \<noteq> Idle \<longrightarrow>
      handleWheel deltaY c = c \<and> handleTouchStart y c = c \<and> handleTouchMove y c = c)
   \<and> (state c = Idle \<and> 1 \<le> durationMinutes c \<and> durationMinutes c \<le> 60 \<longrightarrow>
        state (handleWheel deltaY c) = Idle
        \<and> durationMinutes (handleWheel deltaY c)
            = (if deltaY < 0 then min 60 (durationMinutes c + 1) else max 1 (durationMinutes c - 1))
        \<and> 1 \<le> durationMinutes (handleWheel deltaY c)
        \<and> durationMinutes (handleWheel deltaY c) \<le> 60
        \<and> remainingSeconds (handleWheel deltaY c) = durationMinutes (handleWheel deltaY c) * 60
        \<and> getLastDuration (localStorage (handleWheel deltaY c)) = durationMinutes (handleWheel deltaY c))
   \<and> (state c = Idle \<and> Math_trunc ((touchAccumulated c + (touchStartY c - y)) / 30) \<noteq> 0 \<longrightarrow>
        state (handleTouchMove y c) = Idle
        \<and> 1 \<le> durationMinutes (handleTouchMove y c)
        \<and> durationMinutes (handleTouchMove y c) \<le> 60
        \<and> remainingSeconds (handleTouchMove y c) = durationMinutes (handleTouchMove y c) * 60
        \<and> getLastDuration (localStorage (handleTouchMove y c)) = durationMinutes (handleTouchMove y c))"
  by (simp add: handleWheel_def handleTouchStart_def handleTouchMove_def Let_def
        getLastDuration_def setLastDuration_def)

theorem duration_adjustment_witness:
  "state sample_checking \<noteq> Idle
   \<and> handleWheel (- 100) sample_checking = sample_checking
   \<and> handleTouchMove 40 sample_checking = sample_checking
   \<and> state (mounted empty_storage) = Idle
   \<and> 1 \<le> durationMinutes (mounted empty_storage) \<and> durationMinutes (mounted empty_storage) \<le> 60
   \<and> durationMinutes (handleWheel (- 100) (mounted empty_storage)) = 16
   \<and> remainingSeconds (handleWheel (- 100) (mounted empty_storage)) = 960
   \<and> getLastDuration (localStorage (handleWheel (- 100) (mounted empty_storage))) = 16
   \<and> Math_trunc ((touchAccumulated (mounted empty_storage)
                   + (touchStartY (mounted empty_storage) - 90)) / 30) \<noteq> 0
   \<and> durationMinutes (handleTouchMove 90 (mounted empty_storage)) = 12
   \<and> remainingSeconds (handleTouchMove 90 (mounted empty_storage)) = 720
   \<and> getLastDuration (localStorage (handleTouchMove 90 (mounted empty_storage))) = 12"
proof -
  have a: "state sample_checking \<noteq> Idle" by (simp add: sample_checking_def)
  have b: "state (mounted empty_storage) = Idle" "durationMinutes (mounted empty_storage) = 15"
    by (simp_all add: mounted_def)
  have t: "Math_trunc ((touchAccumulated (mounted empty_storage)
                   + (touchStartY (mounted empty_storage) - 90)) / 30) = - 3"
    by (simp add: mounted_def Math_trunc_def)
  have m: "durationMinutes (handleTouchMove 90 (mounted empty_storage)) = 12"
    by (simp add: handleTouchMove_def Let_def t b)
  from duration_adjustment [of sample_checking "- 100" 40]
    duration_adjustment [of "mounted empty_storage" "- 100" 90] a b t m
  show ?thesis by simp
qed



text \<open>
  Claim C10. In every export the total number of sessions is the number of completed ones
  plus the number of failed ones, where a failed session is any stored session that is not
  completed. A session closed with the answer ``got distracted'' is one of them: it adds
  one to the failed count, although its attention-check flag is false.
\<close>

theorem export_total_is_completed_plus_failed:
  "totalSessions (stats (exportData nowISO ls))
     = completedSessions (stats (exportData nowISO ls)) + failedSessions (stats (exportData nowISO ls))
   \<and> failedSessions (stats (exportData nowISO ls))
     = length (filter (\<lambda>s. \<not> completed s) (sessions (loadData ls)))
   \<and> failedSessions (stats (exportData nowISO
         (localStorage (confirmCompletion rt newId finishedISO now False c))))
     = failedSessions (stats (exportData nowISO (localStorage c))) + 1
   \<and> failedAttentionCheck (last (sessions (loadData
         (localStorage (confirmCompletion rt newId finishedISO now False c))))) = JBool False"
proof -
  have failed: "failedSessions (stats (exportData t st))
      = length (filter (\<lambda>s. \<not> completed s) (sessions (loadData st)))" for t st
    by (simp add: exportData_def Let_def)
  have total: "totalSessions (stats (exportData nowISO ls))
     = completedSessions (stats (exportData nowISO ls)) + failedSessions (stats (exportData nowISO ls))"
    by (simp add: exportData_def Let_def sum_length_filter_compl)
  show ?thesis
    unfolding failed using total by (simp add: failed confirmCompletion_effect)
qed

end
